theory Spec2Isabelle
  imports Complex_Main
begin

section \<open>The environment: random source and clocks\<close>

text \<open>
  \<^verbatim>\<open>quantum_honeypot.py\<close> reads three things from outside the program: the
  random module (\<^verbatim>\<open>random.choice\<close>), the system clock (\<^verbatim>\<open>time.time()\<close>) and the
  formatted wall clock (\<^verbatim>\<open>time.strftime\<close>). Each is a stream of readings together
  with the number of readings taken so far, so that "no new random draw" is the
  statement that \<open>rand_pos\<close> did not move.
\<close>

record env =
  rand_src :: "nat \<Rightarrow> nat"
  rand_pos :: nat
  clock_src :: "nat \<Rightarrow> real"
  clock_pos :: nat
  strftime_src :: "nat \<Rightarrow> string"
  strftime_pos :: nat

text \<open>
  \<^verbatim>\<open>random.choice(seq)\<close> returns \<^verbatim>\<open>seq[randbelow(len(seq))]\<close>: one draw, reduced below
  the length. The program calls it on its two module constants only, both non-empty.
\<close>

definition choice :: "'a list \<Rightarrow> env \<Rightarrow> 'a \<times> env" where
  "choice seq e =
     (seq ! (rand_src e (rand_pos e) mod length seq), e\<lparr>rand_pos := Suc (rand_pos e)\<rparr>)"

text \<open>\<^verbatim>\<open>time.time()\<close>: the next reading of the system clock, in seconds.\<close>

definition time_time :: "env \<Rightarrow> real \<times> env" where
  "time_time e = (clock_src e (clock_pos e), e\<lparr>clock_pos := Suc (clock_pos e)\<rparr>)"

text \<open>\<^verbatim>\<open>time.strftime("%H:%M:%S")\<close>: the next reading of the formatted wall clock.\<close>

definition time_strftime :: "env \<Rightarrow> string \<times> env" where
  "time_strftime e =
     (strftime_src e (strftime_pos e), e\<lparr>strftime_pos := Suc (strftime_pos e)\<rparr>)"

section \<open>QuantumHoneypotModel: the cell\<close>

text \<open>
  \<^verbatim>\<open>QSTATES = ["|0>", "|1>", "|+>", "|->"]\<close> (the source writes the kets with a
  non-ASCII bracket; the four labels are a datatype here) and
  \<^verbatim>\<open>MEASURE_OUTCOMES = ["0", "1"]\<close>.
\<close>

datatype qstate = Ket0 | Ket1 | KetPlus | KetMinus

definition QSTATES :: "qstate list" where
  "QSTATES = [Ket0, Ket1, KetPlus, KetMinus]"

definition MEASURE_OUTCOMES :: "string list" where
  "MEASURE_OUTCOMES = [''0'', ''1'']"

record QuantumHoneypotModel =
  quantum_state :: qstate
  collapsed :: bool
  collapsed_value :: "string option"
  time :: real

text \<open>
  \<^verbatim>\<open>reset\<close> assigns all four attributes, so the state after it does not depend on the
  state before; \<^verbatim>\<open>__init__\<close> is a call of \<^verbatim>\<open>reset\<close> on the new object.
\<close>

definition reset :: "env \<Rightarrow> QuantumHoneypotModel \<times> env" where
  "reset e =
     (let (q, e') = choice QSTATES e
      in (\<lparr>quantum_state = q, collapsed = False, collapsed_value = None, time = 0\<rparr>, e'))"

definition QuantumHoneypotModel_init :: "env \<Rightarrow> QuantumHoneypotModel \<times> env" where
  "QuantumHoneypotModel_init e = reset e"

text \<open>
  \<^verbatim>\<open>measure\<close> returns \<^verbatim>\<open>self.collapsed_value\<close> in both branches, a value of the
  attribute's type (string or None).
\<close>

definition measure_cell ::
  "QuantumHoneypotModel \<Rightarrow> env \<Rightarrow> string option \<times> QuantumHoneypotModel \<times> env" where
  "measure_cell m e =
     (if \<not> collapsed m then
        (let (v, e') = choice MEASURE_OUTCOMES e;
             m1 = m\<lparr>collapsed_value := Some v\<rparr>;
             m2 = m1\<lparr>collapsed := True\<rparr>
         in (collapsed_value m2, m2, e'))
      else (collapsed_value m, m, e))"

definition intrusion_attempt ::
  "QuantumHoneypotModel \<Rightarrow> env \<Rightarrow> (bool \<times> string option) \<times> QuantumHoneypotModel \<times> env" where
  "intrusion_attempt m e =
     (if \<not> collapsed m then
        (let (outcome, m', e') = measure_cell m e in ((True, outcome), m', e'))
      else ((False, collapsed_value m), m, e))"

subsection \<open>Sequences of calls on one cell\<close>

text \<open>
  A call of \<^verbatim>\<open>measure\<close> or \<^verbatim>\<open>intrusion_attempt\<close>, with what it returns: the flag
  (absent for \<^verbatim>\<open>measure\<close>) and the value.
\<close>

datatype cell_call = Measure | IntrusionAttempt

fun do_call ::
  "cell_call \<Rightarrow> QuantumHoneypotModel \<Rightarrow> env \<Rightarrow>
     (bool option \<times> string option) \<times> QuantumHoneypotModel \<times> env" where
  "do_call Measure m e = (let (v, m', e') = measure_cell m e in ((None, v), m', e'))"
| "do_call IntrusionAttempt m e =
     (let ((b, v), m', e') = intrusion_attempt m e in ((Some b, v), m', e'))"

fun do_calls ::
  "cell_call list \<Rightarrow> QuantumHoneypotModel \<Rightarrow> env \<Rightarrow>
     (bool option \<times> string option) list \<times> QuantumHoneypotModel \<times> env" where
  "do_calls [] m e = ([], m, e)"
| "do_calls (c # cs) m e =
     (let (r, m', e') = do_call c m e;
          (rs, m'', e'') = do_calls cs m' e'
      in (r # rs, m'', e''))"

text \<open>The flag a call reports on a cell that is already collapsed.\<close>

fun no_collapse_flag :: "cell_call \<Rightarrow> bool option" where
  "no_collapse_flag Measure = None"
| "no_collapse_flag IntrusionAttempt = Some False"

text \<open>The cell's operations as a state machine: the two calls and \<^verbatim>\<open>reset\<close>.\<close>

datatype cell_op = Op_measure | Op_intrusion_attempt | Op_reset

fun cell_step :: "cell_op \<Rightarrow> QuantumHoneypotModel \<times> env \<Rightarrow> QuantumHoneypotModel \<times> env" where
  "cell_step Op_measure (m, e) = snd (measure_cell m e)"
| "cell_step Op_intrusion_attempt (m, e) = snd (intrusion_attempt m e)"
| "cell_step Op_reset (m, e) = reset e"

text \<open>The cell after \<^verbatim>\<open>__init__\<close> and then the operations \<open>ops\<close>, in order.\<close>

definition cell_run :: "cell_op list \<Rightarrow> env \<Rightarrow> QuantumHoneypotModel \<times> env" where
  "cell_run ops e = foldl (\<lambda>s opn. cell_step opn s) (QuantumHoneypotModel_init e) ops"

text \<open>A fixed environment for the concrete instances below.\<close>

definition env0 :: env where
  "env0 = \<lparr>rand_src = (\<lambda>n. n), rand_pos = 0, clock_src = (\<lambda>n. real n), clock_pos = 0,
           strftime_src = (\<lambda>n. ''12:00:00''), strftime_pos = 0\<rparr>"

section \<open>Python and Qt values used by the window\<close>

datatype error = TypeError | ValueError | OverflowError

text \<open>
  \<^verbatim>\<open>int(x)\<close> as the program calls it, on \<^verbatim>\<open>outcome\<close> or \<^verbatim>\<open>self.model.collapsed_value\<close>:
  TypeError on None; on a string, surrounding whitespace (space, tab, newline, vertical
  tab, form feed, carriage return) is stripped, one sign is read, and the rest must be
  decimal digits, where single underscores may stand between digits; anything else is a
  ValueError. Characters are ASCII here.
\<close>

definition is_space :: "char \<Rightarrow> bool" where
  "is_space c = (let n = (of_char c :: nat) in (9 \<le> n \<and> n \<le> 13) \<or> n = 32)"

definition is_digit :: "char \<Rightarrow> bool" where
  "is_digit c = (let n = (of_char c :: nat) in 48 \<le> n \<and> n \<le> 57)"

definition digit_value :: "char \<Rightarrow> int" where
  "digit_value c = int (of_char c) - 48"

definition strip :: "string \<Rightarrow> string" where
  "strip s = rev (dropWhile is_space (rev (dropWhile is_space s)))"

fun digits_ok :: "string \<Rightarrow> bool" where
  "digits_ok [] = False"
| "digits_ok [c] = is_digit c"
| "digits_ok (c # d # cs) =
     (is_digit c \<and> (if d = CHR ''_'' then digits_ok cs else digits_ok (d # cs)))"

definition digits_value :: "string \<Rightarrow> int" where
  "digits_value s = foldl (\<lambda>a c. 10 * a + digit_value c) 0 (filter is_digit s)"

definition py_int :: "string option \<Rightarrow> error + int" where
  "py_int x =
     (case x of
        None \<Rightarrow> Inl TypeError
      | Some s \<Rightarrow>
          (let t = strip s;
               (sgn, body) =
                 (case t of
                    [] \<Rightarrow> (1, [])
                  | c # cs \<Rightarrow>
                      if c = CHR ''-'' then (- 1, cs)
                      else if c = CHR ''+'' then (1, cs)
                      else (1, t))
           in if digits_ok body then Inr (sgn * digits_value body) else Inl ValueError))"

text \<open>
  A plotted value: the canvas holds \<^verbatim>\<open>0\<close>, \<^verbatim>\<open>1\<close> or \<^verbatim>\<open>np.nan\<close> for "unknown".
\<close>

datatype yval = Num int | NaN

text \<open>
  \<^verbatim>\<open>round(x, 2)\<close>: to two decimals, ties to even. The readings are reals here; the
  representation error of Python's binary floats is not modelled.
\<close>

definition round_half_even :: "real \<Rightarrow> int" where
  "round_half_even x =
     (let f = \<lfloor>x\<rfloor>; d = x - of_int f
      in if d < 1 / 2 then f else if 1 / 2 < d then f + 1 else if even f then f else f + 1)"

definition py_round2 :: "real \<Rightarrow> real" where
  "py_round2 x = of_int (round_half_even (x * 100)) / 100"

subsection \<open>collections.deque with maxlen\<close>

text \<open>
  \<^verbatim>\<open>deque(maxlen=n)\<close>: \<^verbatim>\<open>append\<close> on a full deque discards one item from the left; with
  \<^verbatim>\<open>maxlen = 0\<close> it keeps nothing. The constructor refuses a negative \<^verbatim>\<open>maxlen\<close>, so
  the bound of a deque that exists is a natural number.
\<close>

record 'a deque =
  items :: "'a list"
  maxlen :: nat

definition deque_new :: "nat \<Rightarrow> 'a deque" where
  "deque_new n = \<lparr>items = [], maxlen = n\<rparr>"

definition deque_append :: "'a deque \<Rightarrow> 'a \<Rightarrow> 'a deque" where
  "deque_append d x =
     (if maxlen d = 0 then d
      else (let xs = items d @ [x]
            in d\<lparr>items := (if maxlen d < length xs then tl xs else xs)\<rparr>))"

subsection \<open>QTimer, QSpinBox and the check box's signal\<close>

text \<open>
  A \<^verbatim>\<open>QTimer\<close>: its period in milliseconds, whether it runs, and how many times it was
  started (\<^verbatim>\<open>start\<close> on a running timer restarts it).
\<close>

record QTimer =
  interval :: int
  active :: bool
  starts :: nat

definition QTimer_new :: QTimer where
  "QTimer_new = \<lparr>interval = 0, active = False, starts = 0\<rparr>"

definition setInterval :: "QTimer \<Rightarrow> int \<Rightarrow> QTimer" where
  "setInterval t msec = t\<lparr>interval := msec\<rparr>"

definition start :: "QTimer \<Rightarrow> QTimer" where
  "start t = t\<lparr>active := True, starts := Suc (starts t)\<rparr>"

definition start_msec :: "QTimer \<Rightarrow> int \<Rightarrow> QTimer" where
  "start_msec t msec = start (setInterval t msec)"

definition stop :: "QTimer \<Rightarrow> QTimer" where
  "stop t = t\<lparr>active := False\<rparr>"

text \<open>
  A \<^verbatim>\<open>QSpinBox\<close> keeps its value inside its range. Called from Python, \<^verbatim>\<open>setValue\<close> and
  \<^verbatim>\<open>setRange\<close> take C ints: an argument that does not fit raises OverflowError and leaves
  the widget as it was; one that fits is applied, the value being bounded by the range
  with nothing reported to the caller.
\<close>

record QSpinBox =
  minimum :: int
  maximum :: int
  spin_value :: int

definition QSpinBox_new :: QSpinBox where
  "QSpinBox_new = \<lparr>minimum = 0, maximum = 99, spin_value = 0\<rparr>"

definition c_int :: "int \<Rightarrow> bool" where
  "c_int v = (- 2147483648 \<le> v \<and> v \<le> 2147483647)"

definition setValue :: "QSpinBox \<Rightarrow> int \<Rightarrow> error + QSpinBox" where
  "setValue sb v =
     (if c_int v then Inr (sb\<lparr>spin_value := max (minimum sb) (min (maximum sb) v)\<rparr>)
      else Inl OverflowError)"

definition setRange :: "QSpinBox \<Rightarrow> int \<Rightarrow> int \<Rightarrow> error + QSpinBox" where
  "setRange sb lo hi =
     (if c_int lo \<and> c_int hi then
        (let sb' = sb\<lparr>minimum := lo, maximum := max lo hi\<rparr>
         in Inr (sb'\<lparr>spin_value := max (minimum sb') (min (maximum sb') (spin_value sb))\<rparr>))
      else Inl OverflowError)"

text \<open>
  An edit by the user (typing, arrow keys, wheel) ends with the widget holding a value
  inside its range, and \<open>user_edit\<close> is given that value. The widget never takes a value
  outside its range: given one, it keeps the value it has. Nothing is reported to the
  program.
\<close>

definition user_edit :: "QSpinBox \<Rightarrow> int \<Rightarrow> QSpinBox" where
  "user_edit sb v = (if minimum sb \<le> v \<and> v \<le> maximum sb then sb\<lparr>spin_value := v\<rparr> else sb)"

text \<open>
  The argument of \<^verbatim>\<open>on_auto_changed\<close> is what the signal delivers: a member of
  \<^verbatim>\<open>Qt.CheckState\<close> or a plain int. \<^verbatim>\<open>state == Qt.CheckState.Checked\<close> holds for the member
  \<^verbatim>\<open>Checked\<close> only; an int is not equal to a member of a Python Enum.
\<close>

datatype check_state = Unchecked | PartiallyChecked | Checked

datatype signal_arg = Arg_enum check_state | Arg_int int

fun eq_Checked :: "signal_arg \<Rightarrow> bool" where
  "eq_Checked (Arg_enum c) = (c = Checked)"
| "eq_Checked (Arg_int n) = False"

section \<open>TimelineCanvas\<close>

text \<open>
  The canvas holds the two deques of the samples (times and values, appended together)
  and the list of intrusion markers. Its matplotlib axes are the view: \<^verbatim>\<open>_redraw\<close> and
  \<^verbatim>\<open>draw\<close> read these attributes and change none of them.
\<close>

record TimelineCanvas =
  max_points :: nat
  times_q :: "real deque"
  values_q :: "yval deque"
  intrusion_times :: "(real \<times> yval) list"

definition clear :: "TimelineCanvas \<Rightarrow> TimelineCanvas" where
  "clear c =
     c\<lparr>times_q := deque_new (max_points c),
       values_q := deque_new (max_points c),
       intrusion_times := []\<rparr>"

definition TimelineCanvas_init :: "nat \<Rightarrow> TimelineCanvas" where
  "TimelineCanvas_init mp =
     \<lparr>max_points = mp, times_q = deque_new mp, values_q = deque_new mp, intrusion_times = []\<rparr>"

definition append_canvas :: "TimelineCanvas \<Rightarrow> real \<Rightarrow> yval \<Rightarrow> TimelineCanvas" where
  "append_canvas c t v =
     c\<lparr>times_q := deque_append (times_q c) t, values_q := deque_append (values_q c) v\<rparr>"

definition mark_intrusion :: "TimelineCanvas \<Rightarrow> real \<Rightarrow> yval \<Rightarrow> TimelineCanvas" where
  "mark_intrusion c t value_at_t = c\<lparr>intrusion_times := intrusion_times c @ [(t, value_at_t)]\<rparr>"

text \<open>The samples of a canvas, as pairs of a time and a value.\<close>

definition samples :: "TimelineCanvas \<Rightarrow> (real \<times> yval) list" where
  "samples c = zip (items (times_q c)) (items (values_q c))"

text \<open>Appending a list of samples, one call of \<^verbatim>\<open>append\<close> each, in order.\<close>

definition append_all :: "TimelineCanvas \<Rightarrow> (real \<times> yval) list \<Rightarrow> TimelineCanvas" where
  "append_all c xs = foldl (\<lambda>c' (t, v). append_canvas c' t v) c xs"

text \<open>What Python's deque guarantees of the canvas's two deques.\<close>

definition canvas_ok :: "TimelineCanvas \<Rightarrow> bool" where
  "canvas_ok c =
     (maxlen (times_q c) = max_points c \<and> maxlen (values_q c) = max_points c \<and>
      length (items (times_q c)) \<le> max_points c \<and>
      length (items (values_q c)) = length (items (times_q c)))"

text \<open>Python's guarantee of a bounded deque: it never holds more than \<^verbatim>\<open>maxlen\<close> items.\<close>

definition deque_ok :: "'a deque \<Rightarrow> bool" where
  "deque_ok d = (length (items d) \<le> maxlen d)"

text \<open>
  Calls of \<^verbatim>\<open>append\<close> and \<^verbatim>\<open>mark_intrusion\<close> on one canvas, in any order, and the
  markers such a sequence of calls records.
\<close>

datatype canvas_call = Append real yval | Mark_intrusion real yval

fun do_canvas_call :: "TimelineCanvas \<Rightarrow> canvas_call \<Rightarrow> TimelineCanvas" where
  "do_canvas_call c (Append t v) = append_canvas c t v"
| "do_canvas_call c (Mark_intrusion t v) = mark_intrusion c t v"

definition do_canvas_calls :: "TimelineCanvas \<Rightarrow> canvas_call list \<Rightarrow> TimelineCanvas" where
  "do_canvas_calls c calls = foldl do_canvas_call c calls"

fun marked :: "canvas_call list \<Rightarrow> (real \<times> yval) list" where
  "marked [] = []"
| "marked (Append t v # calls) = marked calls"
| "marked (Mark_intrusion t v # calls) = (t, v) # marked calls"

section \<open>MainWindow\<close>

text \<open>
  The label and the log hold formatted text; each is kept as the format used and the
  values formatted into it. A log line carries the wall-clock string in front.
  A handler in which \<^verbatim>\<open>int(...)\<close> raises returns the exception (\<open>Inl\<close>); the handlers
  that cannot raise return the new state directly.
\<close>

datatype label_text =
    Label_pre qstate
  | Label_collapsed "string option"
  | Label_collapsed_by_intrusion "string option"

datatype log_text =
    Log_initialized qstate
  | Log_measurement "string option"
  | Log_intrusion_collapse "string option"
  | Log_intrusion_post "string option"
  | Log_reset
  | Log_auto_enabled int
  | Log_auto_disabled

record MainWindow =
  model :: QuantumHoneypotModel
  start_time :: real
  state_label :: label_text
  interval_spin :: QSpinBox
  canvas :: TimelineCanvas
  log_box :: "(string \<times> log_text) list"
  ui_timer :: QTimer
  auto_timer :: QTimer
  alerts :: nat

definition current_time :: "MainWindow \<Rightarrow> env \<Rightarrow> real \<times> env" where
  "current_time w e = (let (now, e') = time_time e in (py_round2 (now - start_time w), e'))"

definition append_graph :: "yval \<Rightarrow> MainWindow \<Rightarrow> env \<Rightarrow> MainWindow \<times> env" where
  "append_graph v w e =
     (let (t, e') = current_time w e in (w\<lparr>canvas := append_canvas (canvas w) t v\<rparr>, e'))"

definition log_line :: "log_text \<Rightarrow> MainWindow \<Rightarrow> env \<Rightarrow> MainWindow \<times> env" where
  "log_line txt w e =
     (let (tstr, e') = time_strftime e in (w\<lparr>log_box := log_box w @ [(tstr, txt)]\<rparr>, e'))"

text \<open>\<^verbatim>\<open>QMessageBox.warning(...)\<close>: one alert shown to the user.\<close>

definition QMessageBox_warning :: "MainWindow \<Rightarrow> MainWindow" where
  "QMessageBox_warning w = w\<lparr>alerts := Suc (alerts w)\<rparr>"

text \<open>
  The spin box as \<^verbatim>\<open>__init__\<close> builds it: \<^verbatim>\<open>QSpinBox()\<close>, \<^verbatim>\<open>setRange(1, 60)\<close>,
  \<^verbatim>\<open>setValue(5)\<close>. The arguments are literals that fit a C int, so neither call raises
  (\<open>interval_spin_init_eq\<close>) and \<^verbatim>\<open>__init__\<close> has no failing path.
\<close>

definition interval_spin_init :: "error + QSpinBox" where
  "interval_spin_init =
     (case setRange QSpinBox_new 1 60 of
        Inl err \<Rightarrow> Inl err
      | Inr sb \<Rightarrow> setValue sb 5)"

definition MainWindow_init :: "env \<Rightarrow> MainWindow \<times> env" where
  "MainWindow_init e =
     (let (m, e1) = QuantumHoneypotModel_init e;
          (st, e2) = time_time e1;
          w = \<lparr>model = m, start_time = st,
               state_label = Label_pre (quantum_state m),
               interval_spin = (case interval_spin_init of Inr sb \<Rightarrow> sb | Inl err \<Rightarrow> QSpinBox_new),
               canvas = TimelineCanvas_init 400,
               log_box = [],
               ui_timer = start (setInterval QTimer_new 500),
               auto_timer = QTimer_new,
               alerts = 0\<rparr>;
          (w1, e3) = append_graph NaN w e2
      in log_line (Log_initialized (quantum_state m)) w1 e3)"

definition on_measure :: "MainWindow \<Rightarrow> env \<Rightarrow> error + MainWindow \<times> env" where
  "on_measure w e =
     (let (outcome, m', e1) = measure_cell (model w) e;
          w1 = w\<lparr>model := m'\<rparr>;
          w2 = w1\<lparr>state_label := Label_collapsed outcome\<rparr>;
          (w3, e2) = log_line (Log_measurement outcome) w2 e1
      in case py_int outcome of
           Inl err \<Rightarrow> Inl err
         | Inr n \<Rightarrow> Inr (append_graph (Num n) w3 e2))"

definition on_intrusion :: "MainWindow \<Rightarrow> env \<Rightarrow> error + MainWindow \<times> env" where
  "on_intrusion w e =
     (let ((measured_now, outcome), m', e1) = intrusion_attempt (model w) e;
          w1 = w\<lparr>model := m'\<rparr>;
          (t, e2) = current_time w1 e1
      in if measured_now then
           (let w2 = w1\<lparr>state_label := Label_collapsed_by_intrusion outcome\<rparr>;
                (w3, e3) = log_line (Log_intrusion_collapse outcome) w2 e2
            in case py_int outcome of
                 Inl err \<Rightarrow> Inl err
               | Inr n \<Rightarrow>
                   (let w4 = w3\<lparr>canvas := mark_intrusion (canvas w3) t (Num n)\<rparr>
                    in case py_int outcome of
                         Inl err \<Rightarrow> Inl err
                       | Inr n' \<Rightarrow>
                           (let (w5, e4) = append_graph (Num n') w4 e3
                            in Inr (QMessageBox_warning w5, e4))))
         else
           (let (w2, e3) = log_line (Log_intrusion_post outcome) w1 e2
            in case py_int outcome of
                 Inl err \<Rightarrow> Inl err
               | Inr n \<Rightarrow>
                   (let w3 = w2\<lparr>canvas := mark_intrusion (canvas w2) t (Num n)\<rparr>
                    in Inr (QMessageBox_warning w3, e3))))"

definition on_reset :: "MainWindow \<Rightarrow> env \<Rightarrow> MainWindow \<times> env" where
  "on_reset w e =
     (let (m', e1) = reset e;
          w1 = w\<lparr>model := m'\<rparr>;
          w2 = w1\<lparr>state_label := Label_pre (quantum_state (model w1))\<rparr>;
          (w3, e2) = log_line Log_reset w2 e1;
          w4 = w3\<lparr>canvas := clear (canvas w3)\<rparr>
      in append_graph NaN w4 e2)"

definition on_auto_changed :: "signal_arg \<Rightarrow> MainWindow \<Rightarrow> env \<Rightarrow> MainWindow \<times> env" where
  "on_auto_changed state w e =
     (if eq_Checked state then
        (let interval' = spin_value (interval_spin w) * 1000;
             w1 = w\<lparr>auto_timer := start_msec (auto_timer w) interval'\<rparr>
         in log_line (Log_auto_enabled (spin_value (interval_spin w1))) w1 e)
      else
        (let w1 = w\<lparr>auto_timer := stop (auto_timer w)\<rparr>
         in log_line Log_auto_disabled w1 e))"

definition ui_tick :: "MainWindow \<Rightarrow> env \<Rightarrow> error + MainWindow \<times> env" where
  "ui_tick w e =
     (if collapsed (model w) then
        (case py_int (collapsed_value (model w)) of
           Inl err \<Rightarrow> Inl err
         | Inr val \<Rightarrow> Inr (append_graph (Num val) w e))
      else Inr (append_graph NaN w e))"

subsection \<open>The event loop\<close>

text \<open>
  What reaches the window: the three buttons, the check box's signal, the user editing
  the spin box (no slot is connected to it), and the two timers, each delivered only
  while its timer runs. The auto-intrusion timer is connected to \<^verbatim>\<open>on_intrusion\<close>.
  \<^verbatim>\<open>stateChanged\<close> delivers an int (0 unchecked, 2 checked); the event carries any
  argument the handler can be called with.
\<close>

datatype event =
    Measure_clicked
  | Intrude_clicked
  | Reset_clicked
  | Auto_state_changed signal_arg
  | Interval_edited int
  | Ui_timeout
  | Auto_timeout

fun handle :: "event \<Rightarrow> MainWindow \<times> env \<Rightarrow> error + MainWindow \<times> env" where
  "handle Measure_clicked (w, e) = on_measure w e"
| "handle Intrude_clicked (w, e) = on_intrusion w e"
| "handle Reset_clicked (w, e) = Inr (on_reset w e)"
| "handle (Auto_state_changed state) (w, e) = Inr (on_auto_changed state w e)"
| "handle (Interval_edited v) (w, e) = Inr (w\<lparr>interval_spin := user_edit (interval_spin w) v\<rparr>, e)"
| "handle Ui_timeout (w, e) = (if active (ui_timer w) then ui_tick w e else Inr (w, e))"
| "handle Auto_timeout (w, e) = (if active (auto_timer w) then on_intrusion w e else Inr (w, e))"

fun run :: "event list \<Rightarrow> MainWindow \<times> env \<Rightarrow> error + MainWindow \<times> env" where
  "run [] s = Inr s"
| "run (ev # evs) s = (case handle ev s of Inl err \<Rightarrow> Inl err | Inr s' \<Rightarrow> run evs s')"

text \<open>The window after \<^verbatim>\<open>MainWindow()\<close> and then the events \<open>evs\<close>, in order.\<close>

definition run_window :: "event list \<Rightarrow> env \<Rightarrow> error + MainWindow \<times> env" where
  "run_window evs e = run evs (MainWindow_init e)"

text \<open>
  The cell's values as the window needs them: a collapsed cell holds one of the two
  outcomes, a cell that is not collapsed holds None.
\<close>

definition cell_ok :: "QuantumHoneypotModel \<Rightarrow> bool" where
  "cell_ok m =
     (if collapsed m then collapsed_value m = Some ''0'' \<or> collapsed_value m = Some ''1''
      else collapsed_value m = None)"

text \<open>
  What holds of the window in every state the event loop reaches: the cell's values are
  as above, the canvas was built with \<^verbatim>\<open>max_points=400\<close>, every marker holds 0 or 1, the
  spin box is inside its range 1..60, the sampling timer runs as \<^verbatim>\<open>__init__\<close> started it,
  and the period of the auto-intrusion timer is 0 (never set) or between 1000 and 60000.
\<close>

definition markers_binary :: "TimelineCanvas \<Rightarrow> bool" where
  "markers_binary c = list_all (\<lambda>(t, v). v = Num 0 \<or> v = Num 1) (intrusion_times c)"

definition window_ok :: "MainWindow \<Rightarrow> bool" where
  "window_ok w =
     (cell_ok (model w) \<and> canvas_ok (canvas w) \<and> max_points (canvas w) = 400 \<and>
      markers_binary (canvas w) \<and>
      minimum (interval_spin w) = 1 \<and> maximum (interval_spin w) = 60 \<and>
      1 \<le> spin_value (interval_spin w) \<and> spin_value (interval_spin w) \<le> 60 \<and>
      ui_timer w = \<lparr>interval = 500, active = True, starts = 1\<rparr> \<and>
      (interval (auto_timer w) = 0 \<or>
       (1000 \<le> interval (auto_timer w) \<and> interval (auto_timer w) \<le> 60000)))"

text \<open>The relation between the cell's two collapse attributes.\<close>

definition cell_inv :: "QuantumHoneypotModel \<Rightarrow> bool" where
  "cell_inv m = ((collapsed_value m \<noteq> None) = collapsed m)"

section \<open>Properties of the cell\<close>

lemma measure_cell_collapsed:
  "collapsed m \<Longrightarrow> measure_cell m e = (collapsed_value m, m, e)"
  by (simp add: measure_cell_def)

lemma intrusion_attempt_collapsed:
  "collapsed m \<Longrightarrow> intrusion_attempt m e = ((False, collapsed_value m), m, e)"
  by (simp add: intrusion_attempt_def)

lemma do_call_collapsed:
  "collapsed m \<Longrightarrow> do_call c m e = ((no_collapse_flag c, collapsed_value m), m, e)"
  by (cases c) (simp_all add: measure_cell_collapsed intrusion_attempt_collapsed)

lemma do_calls_collapsed:
  "collapsed m \<Longrightarrow>
   do_calls cs m e = (map (\<lambda>c. (no_collapse_flag c, collapsed_value m)) cs, m, e)"
  by (induction cs) (simp_all add: do_call_collapsed)

lemma choice_outcome:
  "fst (choice MEASURE_OUTCOMES e) = ''0'' \<or> fst (choice MEASURE_OUTCOMES e) = ''1''"
proof -
  define k where "k = rand_src e (rand_pos e) mod 2"
  have "k = 0 \<or> k = 1"
    unfolding k_def by presburger
  moreover have "fst (choice MEASURE_OUTCOMES e) = [''0'', ''1''] ! k"
    by (simp add: choice_def MEASURE_OUTCOMES_def k_def numeral_2_eq_2)
  ultimately show ?thesis
    by auto
qed

lemma measure_cell_fresh:
  assumes "\<not> collapsed m"
  shows "measure_cell m e =
           (Some (fst (choice MEASURE_OUTCOMES e)),
            m\<lparr>collapsed_value := Some (fst (choice MEASURE_OUTCOMES e)), collapsed := True\<rparr>,
            e\<lparr>rand_pos := Suc (rand_pos e)\<rparr>)"
  using assms by (simp add: measure_cell_def choice_def Let_def)

lemma do_call_fresh:
  assumes "\<not> collapsed m"
  shows "do_call c m e =
           ((if c = Measure then None else Some True, Some (fst (choice MEASURE_OUTCOMES e))),
            m\<lparr>collapsed_value := Some (fst (choice MEASURE_OUTCOMES e)), collapsed := True\<rparr>,
            e\<lparr>rand_pos := Suc (rand_pos e)\<rparr>)"
  using assms by (cases c) (simp_all add: intrusion_attempt_def measure_cell_fresh)

lemma reset_env0:
  "reset env0 = (\<lparr>quantum_state = Ket0, collapsed = False, collapsed_value = None, time = 0\<rparr>,
                 env0\<lparr>rand_pos := 1\<rparr>)"
  by (simp add: reset_def choice_def QSTATES_def env0_def)

text \<open>
  C1. Take a cell that is not collapsed (as it is after creation or \<^verbatim>\<open>reset\<close>) and any
  sequence of \<^verbatim>\<open>measure\<close> and \<^verbatim>\<open>intrusion_attempt\<close> calls on it. The first call assigns
  \<open>collapsed_value\<close>, one of the two outcomes, with one draw from the random source.
  Every later call returns that same value, and the cell and the random source after the
  whole sequence are exactly what they were after the first call: no later call assigns
  anything or draws again.
\<close>

theorem first_collapse_is_final:
  assumes "\<not> collapsed m" and "do_call c m e = (r, m1, e1)"
  shows "do_calls (c # cs) m e = (r # map (\<lambda>c'. (no_collapse_flag c', snd r)) cs, m1, e1)
         \<and> collapsed m1 \<and> collapsed_value m1 = snd r
         \<and> (snd r = Some ''0'' \<or> snd r = Some ''1'')
         \<and> e1 = e\<lparr>rand_pos := Suc (rand_pos e)\<rparr>"
proof -
  let ?v = "fst (choice MEASURE_OUTCOMES e)"
  from assms have r: "r = (if c = Measure then None else Some True, Some ?v)"
    and m1: "m1 = m\<lparr>collapsed_value := Some ?v, collapsed := True\<rparr>"
    and e1: "e1 = e\<lparr>rand_pos := Suc (rand_pos e)\<rparr>"
    by (simp_all add: do_call_fresh)
  have c1: "collapsed m1" and v1: "collapsed_value m1 = snd r"
    by (simp_all add: m1 r)
  have "do_calls cs m1 e1 = (map (\<lambda>c'. (no_collapse_flag c', snd r)) cs, m1, e1)"
    using do_calls_collapsed [OF c1, of cs e1] by (simp add: v1)
  then have "do_calls (c # cs) m e = (r # map (\<lambda>c'. (no_collapse_flag c', snd r)) cs, m1, e1)"
    by (simp add: assms(2))
  moreover have "snd r = Some ''0'' \<or> snd r = Some ''1''"
    using choice_outcome [of e] by (simp add: r)
  ultimately show ?thesis
    using c1 v1 e1 by simp
qed

theorem first_collapse_is_final_witness:
  "\<not> collapsed (fst (reset env0)) \<and>
   fst (do_calls [IntrusionAttempt, Measure, IntrusionAttempt, Measure]
          (fst (reset env0)) (snd (reset env0)))
     = [(Some True, Some ''1''), (None, Some ''1''), (Some False, Some ''1''), (None, Some ''1'')] \<and>
   rand_pos (snd (snd (do_calls [IntrusionAttempt, Measure, IntrusionAttempt, Measure]
          (fst (reset env0)) (snd (reset env0))))) = 2"
proof -
  let ?m = "fst (reset env0)" and ?e = "snd (reset env0)"
  have h1: "\<not> collapsed ?m"
    by (simp add: reset_env0)
  have h2: "do_call IntrusionAttempt ?m ?e =
              ((Some True, Some ''1''), ?m\<lparr>collapsed_value := Some ''1'', collapsed := True\<rparr>,
               ?e\<lparr>rand_pos := 2\<rparr>)"
    unfolding reset_env0
    by (simp add: intrusion_attempt_def measure_cell_def choice_def
        MEASURE_OUTCOMES_def env0_def)
  have "do_calls [IntrusionAttempt, Measure, IntrusionAttempt, Measure] ?m ?e =
          ([(Some True, Some ''1''), (None, Some ''1''), (Some False, Some ''1''), (None, Some ''1'')],
           ?m\<lparr>collapsed_value := Some ''1'', collapsed := True\<rparr>, ?e\<lparr>rand_pos := 2\<rparr>)"
    using first_collapse_is_final [OF h1 h2, of "[Measure, IntrusionAttempt, Measure]"]
    by (simp del: do_calls.simps do_call.simps)
  then show ?thesis
    using h1 by (simp del: do_calls.simps do_call.simps)
qed

text \<open>
  C2. \<^verbatim>\<open>intrusion_attempt\<close> on a cell that is not collapsed does what \<^verbatim>\<open>measure\<close> does:
  it takes one draw from the random source, stores the outcome the draw selects (\<^verbatim>\<open>"0"\<close>
  or \<^verbatim>\<open>"1"\<close>), sets \<open>collapsed\<close>, and returns \<^verbatim>\<open>True\<close> with that outcome. On a collapsed
  cell it returns \<^verbatim>\<open>False\<close> with the stored value and changes neither the cell nor the
  random source. (That the draw is uniform is a property of the random source.)
\<close>

theorem intrusion_attempt_spec:
  "(\<not> collapsed m \<longrightarrow>
      (let v = MEASURE_OUTCOMES ! (rand_src e (rand_pos e) mod 2)
       in (v = ''0'' \<or> v = ''1'') \<and>
          intrusion_attempt m e =
            ((True, Some v), m\<lparr>collapsed_value := Some v, collapsed := True\<rparr>,
             e\<lparr>rand_pos := Suc (rand_pos e)\<rparr>) \<and>
          measure_cell m e =
            (Some v, m\<lparr>collapsed_value := Some v, collapsed := True\<rparr>,
             e\<lparr>rand_pos := Suc (rand_pos e)\<rparr>))) \<and>
   (collapsed m \<longrightarrow> intrusion_attempt m e = ((False, collapsed_value m), m, e))"
proof -
  have v: "fst (choice MEASURE_OUTCOMES e) = MEASURE_OUTCOMES ! (rand_src e (rand_pos e) mod 2)"
    by (simp add: choice_def MEASURE_OUTCOMES_def numeral_2_eq_2)
  show ?thesis
    using choice_outcome [of e]
    by (simp add: intrusion_attempt_def measure_cell_fresh Let_def v)
qed

theorem intrusion_attempt_spec_witness:
  "intrusion_attempt (fst (reset env0)) (snd (reset env0)) =
     ((True, Some ''1''),
      \<lparr>quantum_state = Ket0, collapsed = True, collapsed_value = Some ''1'', time = 0\<rparr>,
      env0\<lparr>rand_pos := 2\<rparr>) \<and>
   intrusion_attempt
     \<lparr>quantum_state = Ket0, collapsed = True, collapsed_value = Some ''1'', time = 0\<rparr>
     (env0\<lparr>rand_pos := 2\<rparr>) =
     ((False, Some ''1''),
      \<lparr>quantum_state = Ket0, collapsed = True, collapsed_value = Some ''1'', time = 0\<rparr>,
      env0\<lparr>rand_pos := 2\<rparr>)"
  using intrusion_attempt_spec [of "fst (reset env0)" "snd (reset env0)"]
    intrusion_attempt_spec
      [of "\<lparr>quantum_state = Ket0, collapsed = True, collapsed_value = Some ''1'', time = 0\<rparr>"
          "env0\<lparr>rand_pos := 2\<rparr>"]
  unfolding reset_env0
  by (simp add: MEASURE_OUTCOMES_def env0_def Let_def numeral_2_eq_2)

lemma cell_inv_reset: "cell_inv (fst (reset e))"
  by (simp add: cell_inv_def reset_def choice_def)

lemma cell_inv_step: "cell_inv (fst s) \<Longrightarrow> cell_inv (fst (cell_step opn s))"
  by (cases s; cases opn)
     (auto simp: cell_inv_def intrusion_attempt_def measure_cell_def reset_def choice_def Let_def)

lemma cell_inv_foldl:
  "cell_inv (fst s) \<Longrightarrow> cell_inv (fst (foldl (\<lambda>s opn. cell_step opn s) s ops))"
  by (induction ops arbitrary: s) (simp_all add: cell_inv_step)

lemma cell_inv_run: "cell_inv (fst (cell_run ops e))"
  by (simp add: cell_run_def QuantumHoneypotModel_init_def cell_inv_foldl cell_inv_reset)

text \<open>
  C3. In every state the cell reaches from \<^verbatim>\<open>__init__\<close> by \<^verbatim>\<open>measure\<close>,
  \<^verbatim>\<open>intrusion_attempt\<close> and \<^verbatim>\<open>reset\<close>, \<open>collapsed_value\<close> is set exactly when \<open>collapsed\<close>
  is true; a collapsed cell is left as it is by every operation but \<^verbatim>\<open>reset\<close>; and
  \<^verbatim>\<open>reset\<close> gives a cell that is not collapsed, holds no value, and has the label the
  next draw selects from \<^verbatim>\<open>QSTATES\<close>.
\<close>

theorem cell_invariant:
  "(collapsed_value (fst (cell_run ops e)) \<noteq> None) = collapsed (fst (cell_run ops e)) \<and>
   (collapsed (fst (cell_run ops e)) \<and> opn \<noteq> Op_reset \<longrightarrow>
      cell_step opn (cell_run ops e) = cell_run ops e) \<and>
   cell_step Op_reset (cell_run ops e) =
     (\<lparr>quantum_state = QSTATES ! (rand_src (snd (cell_run ops e)) (rand_pos (snd (cell_run ops e))) mod 4),
       collapsed = False, collapsed_value = None, time = 0\<rparr>,
      (snd (cell_run ops e))\<lparr>rand_pos := Suc (rand_pos (snd (cell_run ops e)))\<rparr>)"
proof -
  obtain m e' where s: "cell_run ops e = (m, e')"
    by (cases "cell_run ops e")
  have "cell_inv m"
    using cell_inv_run [of ops e] by (simp add: s)
  then have a: "(collapsed_value m \<noteq> None) = collapsed m"
    by (simp add: cell_inv_def)
  have b: "collapsed m \<and> opn \<noteq> Op_reset \<longrightarrow> cell_step opn (m, e') = (m, e')"
    by (cases opn) (simp_all add: measure_cell_collapsed intrusion_attempt_collapsed)
  have c: "cell_step Op_reset (m, e') =
     (\<lparr>quantum_state = QSTATES ! (rand_src e' (rand_pos e') mod 4),
       collapsed = False, collapsed_value = None, time = 0\<rparr>,
      e'\<lparr>rand_pos := Suc (rand_pos e')\<rparr>)"
    by (simp add: reset_def choice_def QSTATES_def)
  show ?thesis
    using a b c by (simp add: s)
qed

theorem cell_invariant_witness:
  "collapsed (fst (cell_run [Op_measure] env0)) \<and>
   collapsed_value (fst (cell_run [Op_measure] env0)) = Some ''1'' \<and>
   cell_step Op_intrusion_attempt (cell_run [Op_measure] env0) = cell_run [Op_measure] env0 \<and>
   fst (cell_step Op_reset (cell_run [Op_measure] env0)) =
     \<lparr>quantum_state = KetPlus, collapsed = False, collapsed_value = None, time = 0\<rparr>"
proof -
  have run: "cell_run [Op_measure] env0 =
      (\<lparr>quantum_state = Ket0, collapsed = True, collapsed_value = Some ''1'', time = 0\<rparr>,
       env0\<lparr>rand_pos := 2\<rparr>)"
    unfolding cell_run_def QuantumHoneypotModel_init_def reset_env0
    by (simp add: measure_cell_def choice_def MEASURE_OUTCOMES_def env0_def)
  show ?thesis
    using cell_invariant [of "[Op_measure]" env0 Op_intrusion_attempt]
    unfolding run
    by (simp add: QSTATES_def env0_def)
qed

section \<open>Properties of the canvas\<close>

lemma deque_append_items:
  "deque_ok d \<Longrightarrow>
   items (deque_append d x) = drop (Suc (length (items d)) - maxlen d) (items d @ [x])"
  by (cases "items d") (auto simp: deque_append_def deque_ok_def Let_def Suc_diff_le)

lemma deque_append_maxlen: "maxlen (deque_append d x) = maxlen d"
  by (simp add: deque_append_def Let_def)

lemma deque_append_ok: "deque_ok d \<Longrightarrow> deque_ok (deque_append d x)"
  by (auto simp: deque_append_def deque_ok_def Let_def)

lemma foldl_deque_append_maxlen: "maxlen (foldl deque_append d xs) = maxlen d"
  by (induction xs arbitrary: d) (simp_all add: deque_append_maxlen)

lemma foldl_deque_append_ok: "deque_ok d \<Longrightarrow> deque_ok (foldl deque_append d xs)"
  by (induction xs arbitrary: d) (simp_all add: deque_append_ok)

lemma drop_snoc_step:
  "drop (Suc (length (drop (length L - M) L)) - M) (drop (length L - M) L @ [x]) =
   drop (Suc (length L) - M) (L @ [x])"
proof -
  consider "length L \<le> M" | "M = 0" | "M < length L" "0 < M"
    by linarith
  then show ?thesis
  proof cases
    case 1
    then show ?thesis by simp
  next
    case 2
    then show ?thesis by simp
  next
    case 3
    then have n: "Suc (length L) - M = Suc (length L - M)"
      and l: "length L - (length L - M) = M"
      by simp_all
    have "drop (Suc (length (drop (length L - M) L)) - M) (drop (length L - M) L @ [x]) =
          drop (Suc 0) (drop (length L - M) L @ [x])"
      by (simp add: l)
    also have "\<dots> = drop (Suc 0) (drop (length L - M) L) @ [x]"
      using 3 by simp
    also have "\<dots> = drop (Suc (length L - M)) L @ [x]"
      by simp
    also have "\<dots> = drop (Suc (length L) - M) (L @ [x])"
      using 3 by (simp add: n)
    finally show ?thesis .
  qed
qed

lemma foldl_deque_append_items:
  assumes "deque_ok d"
  shows "items (foldl deque_append d xs) =
           drop (length (items d @ xs) - maxlen d) (items d @ xs)"
proof (induction xs rule: rev_induct)
  case Nil
  from assms show ?case by (simp add: deque_ok_def)
next
  case (snoc x xs)
  let ?d = "foldl deque_append d xs"
  let ?L = "items d @ xs"
  have ok: "deque_ok ?d"
    using assms by (rule foldl_deque_append_ok)
  have "items (foldl deque_append d (xs @ [x])) =
          drop (Suc (length (items ?d)) - maxlen d) (items ?d @ [x])"
    using deque_append_items [OF ok, of x] by (simp add: foldl_deque_append_maxlen)
  also have "\<dots> = drop (Suc (length (drop (length ?L - maxlen d) ?L)) - maxlen d)
                     (drop (length ?L - maxlen d) ?L @ [x])"
    by (simp only: snoc.IH)
  also have "\<dots> = drop (Suc (length ?L) - maxlen d) (?L @ [x])"
    by (rule drop_snoc_step)
  finally show ?case by simp
qed

lemma times_append_all:
  "times_q (append_all c xs) = foldl deque_append (times_q c) (map fst xs)"
  unfolding append_all_def
  by (induction xs arbitrary: c) (simp_all add: append_canvas_def split_beta)

lemma values_append_all:
  "values_q (append_all c xs) = foldl deque_append (values_q c) (map snd xs)"
  unfolding append_all_def
  by (induction xs arbitrary: c) (simp_all add: append_canvas_def split_beta)

lemma max_points_append_all: "max_points (append_all c xs) = max_points c"
  unfolding append_all_def
  by (induction xs arbitrary: c) (simp_all add: append_canvas_def split_beta)

lemma samples_append_all:
  assumes "canvas_ok c"
  shows "samples (append_all c xs) =
           drop (length (samples c) + length xs - max_points c) (samples c @ xs)"
proof -
  let ?n = "length (items (times_q c)) + length xs - max_points c"
  from assms have ok: "deque_ok (times_q c)" "deque_ok (values_q c)"
    and mt: "maxlen (times_q c) = max_points c" and mv: "maxlen (values_q c) = max_points c"
    and len: "length (items (values_q c)) = length (items (times_q c))"
    by (simp_all add: canvas_ok_def deque_ok_def)
  have t: "items (times_q (append_all c xs)) = drop ?n (items (times_q c) @ map fst xs)"
    by (simp add: times_append_all foldl_deque_append_items [OF ok(1)] mt)
  have v: "items (values_q (append_all c xs)) = drop ?n (items (values_q c) @ map snd xs)"
    by (simp add: values_append_all foldl_deque_append_items [OF ok(2)] mv len)
  have "samples (append_all c xs) =
        drop ?n (zip (items (times_q c) @ map fst xs) (items (values_q c) @ map snd xs))"
    by (simp add: samples_def t v drop_zip)
  also have "zip (items (times_q c) @ map fst xs) (items (values_q c) @ map snd xs) =
             samples c @ xs"
    by (simp add: samples_def len zip_map_fst_snd)
  finally show ?thesis
    by (simp add: samples_def len)
qed

lemma canvas_ok_append_all: "canvas_ok c \<Longrightarrow> canvas_ok (append_all c xs)"
  by (simp add: canvas_ok_def times_append_all values_append_all max_points_append_all
      foldl_deque_append_maxlen foldl_deque_append_items deque_ok_def)

lemma canvas_ok_clear: "canvas_ok (clear c)"
  by (simp add: canvas_ok_def clear_def deque_new_def)

lemma canvas_ok_init: "canvas_ok (TimelineCanvas_init mp)"
  by (simp add: canvas_ok_def TimelineCanvas_init_def deque_new_def)

text \<open>
  C5. On every canvas whose deques are as Python keeps them, after any sequence of
  \<^verbatim>\<open>append\<close> calls the number of samples is at most \<^verbatim>\<open>max_points\<close>. Appended to a
  cleared canvas, a list of samples leaves exactly its last \<^verbatim>\<open>max_points\<close> elements, in
  the order given: with \<^verbatim>\<open>max_points + k\<close> samples the first \<open>k\<close> are gone, and increasing
  timestamps stay increasing.
\<close>

theorem append_bounded_fifo:
  "(canvas_ok c \<longrightarrow>
      canvas_ok (append_all c xs) \<and>
      max_points (append_all c xs) = max_points c \<and>
      length (items (times_q (append_all c xs))) \<le> max_points c \<and>
      length (items (values_q (append_all c xs))) \<le> max_points c \<and>
      length (samples (append_all c xs)) \<le> max_points c) \<and>
   canvas_ok (clear c) \<and> samples (clear c) = [] \<and>
   samples (append_all (clear c) xs) = drop (length xs - max_points c) xs \<and>
   (length xs = max_points c + k \<longrightarrow>
      samples (append_all (clear c) xs) = drop k xs \<and>
      length (samples (append_all (clear c) xs)) = max_points c) \<and>
   (sorted_wrt (<) (map fst xs) \<longrightarrow>
      sorted_wrt (<) (map fst (samples (append_all (clear c) xs))))"
proof -
  have a: "canvas_ok (append_all c xs) \<and>
      max_points (append_all c xs) = max_points c \<and>
      length (items (times_q (append_all c xs))) \<le> max_points c \<and>
      length (items (values_q (append_all c xs))) \<le> max_points c \<and>
      length (samples (append_all c xs)) \<le> max_points c" if "canvas_ok c"
  proof -
    have ok: "canvas_ok (append_all c xs)"
      using that by (rule canvas_ok_append_all)
    then show ?thesis
      by (simp add: canvas_ok_def samples_def max_points_append_all)
  qed
  have e: "samples (clear c) = []"
    by (simp add: samples_def clear_def deque_new_def)
  have m: "max_points (clear c) = max_points c"
    by (simp add: clear_def)
  have d: "samples (append_all (clear c) xs) = drop (length xs - max_points c) xs"
    using samples_append_all [OF canvas_ok_clear, of c xs] by (simp add: e m)
  have s: "sorted_wrt (<) (map fst (drop n xs))" if "sorted_wrt (<) (map fst xs)" for n
    using that by (simp add: sorted_wrt_drop flip: drop_map)
  show ?thesis
    using a d e s canvas_ok_clear by auto
qed

theorem append_bounded_fifo_witness:
  "canvas_ok (TimelineCanvas_init 3) \<and>
   sorted_wrt (<) (map fst [(1, NaN), (2, NaN), (3, Num 0), (4, Num 0), (5::real, Num 0)]) \<and>
   length (samples (append_all (TimelineCanvas_init 3)
      [(1, NaN), (2, NaN), (3, Num 0), (4, Num 0), (5, Num 0)])) \<le> 3 \<and>
   samples (append_all (clear (TimelineCanvas_init 3))
      [(1, NaN), (2, NaN), (3, Num 0), (4, Num 0), (5, Num 0)]) =
     [(3, Num 0), (4, Num 0), (5, Num 0)]"
proof -
  let ?xs = "[(1, NaN), (2, NaN), (3, Num 0), (4, Num 0), (5::real, Num 0)]"
  have mp: "max_points (TimelineCanvas_init 3) = 3"
    by (simp add: TimelineCanvas_init_def)
  have len: "length ?xs = max_points (TimelineCanvas_init 3) + 2"
    by (simp add: mp)
  have srt: "sorted_wrt (<) (map fst ?xs)"
    by simp
  show ?thesis
    using append_bounded_fifo [of "TimelineCanvas_init 3" ?xs 2] canvas_ok_init [of 3] len srt
    by (simp add: mp)
qed

lemma mark_intrusion_frame:
  "times_q (mark_intrusion c t v) = times_q c \<and> values_q (mark_intrusion c t v) = values_q c \<and>
   max_points (mark_intrusion c t v) = max_points c"
  by (simp add: mark_intrusion_def)

lemma intrusion_times_calls:
  "intrusion_times (do_canvas_calls c calls) = intrusion_times c @ marked calls"
  unfolding do_canvas_calls_def
proof (induction calls arbitrary: c)
  case Nil
  show ?case by simp
next
  case (Cons a calls)
  show ?case
    by (cases a) (simp_all add: Cons.IH append_canvas_def mark_intrusion_def)
qed

text \<open>
  C6. \<^verbatim>\<open>mark_intrusion\<close> leaves both sample deques and \<^verbatim>\<open>max_points\<close> as they are and
  appends one marker. After \<^verbatim>\<open>clear\<close>, whatever \<^verbatim>\<open>append\<close> and \<^verbatim>\<open>mark_intrusion\<close> calls
  follow, the markers held are all the markers recorded, in order: none is evicted.
\<close>

theorem mark_intrusion_keeps_samples:
  "samples (mark_intrusion c t v) = samples c \<and>
   times_q (mark_intrusion c t v) = times_q c \<and>
   values_q (mark_intrusion c t v) = values_q c \<and>
   max_points (mark_intrusion c t v) = max_points c \<and>
   intrusion_times (mark_intrusion c t v) = intrusion_times c @ [(t, v)] \<and>
   intrusion_times (do_canvas_calls (clear c) calls) = marked calls \<and>
   length (intrusion_times (do_canvas_calls (clear c) calls)) = length (marked calls)"
proof -
  have "intrusion_times (clear c) = []"
    by (simp add: clear_def)
  then have "intrusion_times (do_canvas_calls (clear c) calls) = marked calls"
    by (simp add: intrusion_times_calls)
  then show ?thesis
    by (simp add: mark_intrusion_frame samples_def) (simp add: mark_intrusion_def)
qed

theorem mark_intrusion_keeps_samples_witness:
  "samples (mark_intrusion (append_all (TimelineCanvas_init 1) [(1, NaN)]) 2 (Num 1)) = [(1, NaN)] \<and>
   intrusion_times (do_canvas_calls (clear (TimelineCanvas_init 1))
      [Mark_intrusion 1 (Num 0), Append 2 (Num 0), Append 3 (Num 0), Mark_intrusion 4 (Num 0),
       Mark_intrusion 5 (Num 0)]) =
     [(1, Num 0), (4, Num 0), (5, Num 0)]"
proof -
  have "samples (append_all (TimelineCanvas_init 1) [(1, NaN)]) = [(1, NaN)]"
    by (simp add: samples_def append_all_def append_canvas_def TimelineCanvas_init_def
        deque_new_def deque_append_def)
  then show ?thesis
    using mark_intrusion_keeps_samples
      [of "append_all (TimelineCanvas_init 1) [(1, NaN)]" 2 "Num 1"
          "[Mark_intrusion 1 (Num 0), Append 2 (Num 0), Append 3 (Num 0),
            Mark_intrusion 4 (Num 0), Mark_intrusion 5 (Num 0)]"]
      mark_intrusion_keeps_samples
      [of "TimelineCanvas_init 1" 2 "Num 1"
          "[Mark_intrusion 1 (Num 0), Append 2 (Num 0), Append 3 (Num 0),
            Mark_intrusion 4 (Num 0), Mark_intrusion 5 (Num 0)]"]
    by simp
qed

section \<open>Properties of the window\<close>

lemma py_int_outcomes: "py_int (Some ''0'') = Inr 0" "py_int (Some ''1'') = Inr 1"
  by (simp_all add: py_int_def strip_def is_space_def is_digit_def digits_value_def
      digit_value_def)

lemma current_time_eq:
  "current_time w e =
     (py_round2 (clock_src e (clock_pos e) - start_time w), e\<lparr>clock_pos := Suc (clock_pos e)\<rparr>)"
  by (simp add: current_time_def time_time_def)

lemma log_line_eq:
  "log_line txt w e =
     (w\<lparr>log_box := log_box w @ [(strftime_src e (strftime_pos e), txt)]\<rparr>,
      e\<lparr>strftime_pos := Suc (strftime_pos e)\<rparr>)"
  by (simp add: log_line_def time_strftime_def)

lemma append_graph_eq:
  "append_graph v w e =
     (w\<lparr>canvas := append_canvas (canvas w)
            (py_round2 (clock_src e (clock_pos e) - start_time w)) v\<rparr>,
      e\<lparr>clock_pos := Suc (clock_pos e)\<rparr>)"
  by (simp add: append_graph_def current_time_eq)

lemma on_intrusion_collapsed:
  assumes "collapsed (model w)" and "py_int (collapsed_value (model w)) = Inr n"
  shows "on_intrusion w e =
     Inr (w\<lparr>log_box := log_box w @
               [(strftime_src e (strftime_pos e), Log_intrusion_post (collapsed_value (model w)))],
            canvas := mark_intrusion (canvas w)
               (py_round2 (clock_src e (clock_pos e) - start_time w)) (Num n),
            alerts := Suc (alerts w)\<rparr>,
          e\<lparr>clock_pos := Suc (clock_pos e), strftime_pos := Suc (strftime_pos e)\<rparr>)"
  using assms
  by (simp add: on_intrusion_def intrusion_attempt_def current_time_eq log_line_eq
      QMessageBox_warning_def)

lemma on_intrusion_fresh:
  assumes "\<not> collapsed (model w)" and "fst (choice MEASURE_OUTCOMES e) = v"
    and "py_int (Some v) = Inr n"
  shows "on_intrusion w e =
     Inr (w\<lparr>model := (model w)\<lparr>collapsed_value := Some v, collapsed := True\<rparr>,
            state_label := Label_collapsed_by_intrusion (Some v),
            log_box := log_box w @
               [(strftime_src e (strftime_pos e), Log_intrusion_collapse (Some v))],
            canvas := append_canvas
               (mark_intrusion (canvas w)
                  (py_round2 (clock_src e (clock_pos e) - start_time w)) (Num n))
               (py_round2 (clock_src e (Suc (clock_pos e)) - start_time w)) (Num n),
            alerts := Suc (alerts w)\<rparr>,
          e\<lparr>rand_pos := Suc (rand_pos e), clock_pos := Suc (Suc (clock_pos e)),
            strftime_pos := Suc (strftime_pos e)\<rparr>)"
  using assms
  by (simp add: on_intrusion_def intrusion_attempt_def measure_cell_fresh current_time_eq
      log_line_eq append_graph_eq QMessageBox_warning_def)


lemma cell_ok_collapsed_int:
  assumes "cell_ok m" and "collapsed m"
  obtains n where "n = 0 \<or> n = 1" and "py_int (collapsed_value m) = Inr n"
  using assms by (auto simp: cell_ok_def py_int_outcomes)

lemma choice_outcome_int:
  obtains n where "n = 0 \<or> n = 1" and "py_int (Some (fst (choice MEASURE_OUTCOMES e))) = Inr n"
  using choice_outcome [of e] by (auto simp: py_int_outcomes)

lemma canvas_ok_append_canvas: "canvas_ok c \<Longrightarrow> canvas_ok (append_canvas c t v)"
  using canvas_ok_append_all [of c "[(t, v)]"] by (simp add: append_all_def)

lemma canvas_ok_mark_intrusion: "canvas_ok c \<Longrightarrow> canvas_ok (mark_intrusion c t v)"
  by (simp add: canvas_ok_def mark_intrusion_def)

lemma markers_binary_append_canvas: "markers_binary (append_canvas c t v) = markers_binary c"
  by (simp add: markers_binary_def append_canvas_def)

lemma markers_binary_mark_intrusion:
  "markers_binary c \<Longrightarrow> n = 0 \<or> n = 1 \<Longrightarrow> markers_binary (mark_intrusion c t (Num n))"
  by (auto simp: markers_binary_def mark_intrusion_def)

lemma markers_binary_clear: "markers_binary (clear c)"
  by (simp add: markers_binary_def clear_def)

lemma max_points_simps:
  "max_points (append_canvas c t v) = max_points c"
  "max_points (mark_intrusion c t v) = max_points c"
  "max_points (clear c) = max_points c"
  by (simp_all add: append_canvas_def mark_intrusion_def clear_def)

lemma on_measure_collapsed:
  assumes "collapsed (model w)" and "py_int (collapsed_value (model w)) = Inr n"
  shows "on_measure w e =
     Inr (w\<lparr>state_label := Label_collapsed (collapsed_value (model w)),
            log_box := log_box w @
               [(strftime_src e (strftime_pos e), Log_measurement (collapsed_value (model w)))],
            canvas := append_canvas (canvas w)
               (py_round2 (clock_src e (clock_pos e) - start_time w)) (Num n)\<rparr>,
          e\<lparr>strftime_pos := Suc (strftime_pos e), clock_pos := Suc (clock_pos e)\<rparr>)"
  using assms
  by (simp add: on_measure_def measure_cell_collapsed log_line_eq append_graph_eq)

lemma on_measure_fresh:
  assumes "\<not> collapsed (model w)" and "fst (choice MEASURE_OUTCOMES e) = v"
    and "py_int (Some v) = Inr n"
  shows "on_measure w e =
     Inr (w\<lparr>model := (model w)\<lparr>collapsed_value := Some v, collapsed := True\<rparr>,
            state_label := Label_collapsed (Some v),
            log_box := log_box w @
               [(strftime_src e (strftime_pos e), Log_measurement (Some v))],
            canvas := append_canvas (canvas w)
               (py_round2 (clock_src e (clock_pos e) - start_time w)) (Num n)\<rparr>,
          e\<lparr>rand_pos := Suc (rand_pos e), strftime_pos := Suc (strftime_pos e),
            clock_pos := Suc (clock_pos e)\<rparr>)"
  using assms
  by (simp add: on_measure_def measure_cell_fresh log_line_eq append_graph_eq)

lemma on_reset_eq:
  "on_reset w e =
     (w\<lparr>model := \<lparr>quantum_state = QSTATES ! (rand_src e (rand_pos e) mod 4),
                    collapsed = False, collapsed_value = None, time = 0\<rparr>,
        state_label := Label_pre (QSTATES ! (rand_src e (rand_pos e) mod 4)),
        log_box := log_box w @ [(strftime_src e (strftime_pos e), Log_reset)],
        canvas := append_canvas (clear (canvas w))
           (py_round2 (clock_src e (clock_pos e) - start_time w)) NaN\<rparr>,
      e\<lparr>rand_pos := Suc (rand_pos e), strftime_pos := Suc (strftime_pos e),
        clock_pos := Suc (clock_pos e)\<rparr>)"
  by (simp add: on_reset_def reset_def choice_def QSTATES_def log_line_eq append_graph_eq)

lemma window_ok_on_intrusion:
  assumes "window_ok w"
  obtains w' e' where "on_intrusion w e = Inr (w', e')" and "window_ok w'"
proof (cases "collapsed (model w)")
  case True
  from assms have "cell_ok (model w)"
    by (simp add: window_ok_def)
  then obtain n where n: "n = 0 \<or> n = 1" "py_int (collapsed_value (model w)) = Inr n"
    using True by (rule cell_ok_collapsed_int)
  show ?thesis
    using assms n(1)
    by (intro that [OF on_intrusion_collapsed [OF True n(2)]])
       (simp add: window_ok_def canvas_ok_mark_intrusion markers_binary_mark_intrusion
          max_points_simps)
next
  case False
  obtain n where n: "n = 0 \<or> n = 1"
      "py_int (Some (fst (choice MEASURE_OUTCOMES e))) = Inr n"
    by (rule choice_outcome_int)
  show ?thesis
    using assms n(1) choice_outcome [of e]
    by (intro that [OF on_intrusion_fresh [OF False refl n(2)]])
       (auto simp: window_ok_def cell_ok_def canvas_ok_mark_intrusion canvas_ok_append_canvas
          markers_binary_mark_intrusion markers_binary_append_canvas max_points_simps)
qed

lemma window_ok_on_measure:
  assumes "window_ok w"
  obtains w' e' where "on_measure w e = Inr (w', e')" and "window_ok w'"
proof (cases "collapsed (model w)")
  case True
  from assms have "cell_ok (model w)"
    by (simp add: window_ok_def)
  then obtain n where n: "n = 0 \<or> n = 1" "py_int (collapsed_value (model w)) = Inr n"
    using True by (rule cell_ok_collapsed_int)
  show ?thesis
    using assms
    by (intro that [OF on_measure_collapsed [OF True n(2)]])
       (simp add: window_ok_def canvas_ok_append_canvas markers_binary_append_canvas
          max_points_simps)
next
  case False
  obtain n where n: "n = 0 \<or> n = 1"
      "py_int (Some (fst (choice MEASURE_OUTCOMES e))) = Inr n"
    by (rule choice_outcome_int)
  show ?thesis
    using assms choice_outcome [of e]
    by (intro that [OF on_measure_fresh [OF False refl n(2)]])
       (auto simp: window_ok_def cell_ok_def canvas_ok_append_canvas
          markers_binary_append_canvas max_points_simps)
qed

lemma window_ok_ui_tick:
  assumes "window_ok w"
  obtains w' e' where "ui_tick w e = Inr (w', e')" and "window_ok w'"
proof (cases "collapsed (model w)")
  case True
  from assms have "cell_ok (model w)"
    by (simp add: window_ok_def)
  then obtain n where n: "n = 0 \<or> n = 1" "py_int (collapsed_value (model w)) = Inr n"
    using True by (rule cell_ok_collapsed_int)
  have "ui_tick w e = Inr (append_graph (Num n) w e)"
    using True n(2) by (simp add: ui_tick_def)
  moreover have "window_ok (fst (append_graph (Num n) w e))"
    using assms
    by (simp add: append_graph_eq window_ok_def canvas_ok_append_canvas
        markers_binary_append_canvas max_points_simps)
  ultimately show ?thesis
    using that [of "fst (append_graph (Num n) w e)" "snd (append_graph (Num n) w e)"] by simp
next
  case False
  have "ui_tick w e = Inr (append_graph NaN w e)"
    using False by (simp add: ui_tick_def)
  moreover have "window_ok (fst (append_graph NaN w e))"
    using assms
    by (simp add: append_graph_eq window_ok_def canvas_ok_append_canvas
        markers_binary_append_canvas max_points_simps)
  ultimately show ?thesis
    using that [of "fst (append_graph NaN w e)" "snd (append_graph NaN w e)"] by simp
qed

lemma window_ok_on_reset: "window_ok w \<Longrightarrow> window_ok (fst (on_reset w e))"
  by (simp add: on_reset_eq window_ok_def cell_ok_def canvas_ok_append_canvas canvas_ok_clear
      markers_binary_append_canvas markers_binary_clear max_points_simps)

lemma on_auto_changed_eq:
  "on_auto_changed state w e =
     (w\<lparr>auto_timer :=
          (if eq_Checked state
           then start_msec (auto_timer w) (spin_value (interval_spin w) * 1000)
           else stop (auto_timer w)),
        log_box := log_box w @
          [(strftime_src e (strftime_pos e),
            if eq_Checked state then Log_auto_enabled (spin_value (interval_spin w))
            else Log_auto_disabled)]\<rparr>,
      e\<lparr>strftime_pos := Suc (strftime_pos e)\<rparr>)"
  by (simp add: on_auto_changed_def log_line_eq Let_def)

lemma window_ok_on_auto_changed: "window_ok w \<Longrightarrow> window_ok (fst (on_auto_changed state w e))"
  by (simp add: on_auto_changed_eq window_ok_def start_msec_def start_def setInterval_def
      stop_def)

lemma window_ok_handle:
  assumes "window_ok (fst s)"
  shows "\<exists>s'. handle ev s = Inr s' \<and> window_ok (fst s')"
proof -
  obtain w e where s: "s = (w, e)"
    by (cases s)
  with assms have ok: "window_ok w"
    by simp
  have intr: "\<exists>s'. on_intrusion w e = Inr s' \<and> window_ok (fst s')"
  proof -
    obtain w' e' where "on_intrusion w e = Inr (w', e')" and "window_ok w'"
      using ok by (rule window_ok_on_intrusion)
    then have "on_intrusion w e = Inr (w', e') \<and> window_ok (fst (w', e'))"
      by simp
    then show ?thesis ..
  qed
  show ?thesis
  proof (cases ev)
    case Measure_clicked
    obtain w' e' where "on_measure w e = Inr (w', e')" and "window_ok w'"
      using ok by (rule window_ok_on_measure)
    then have "handle ev s = Inr (w', e') \<and> window_ok (fst (w', e'))"
      by (simp add: s Measure_clicked)
    then show ?thesis ..
  next
    case Intrude_clicked
    then show ?thesis
      using intr by (simp add: s)
  next
    case Reset_clicked
    have "handle ev s = Inr (on_reset w e) \<and> window_ok (fst (on_reset w e))"
      using window_ok_on_reset [OF ok, of e] by (simp add: s Reset_clicked)
    then show ?thesis ..
  next
    case (Auto_state_changed state)
    have "handle ev s = Inr (on_auto_changed state w e) \<and>
          window_ok (fst (on_auto_changed state w e))"
      using window_ok_on_auto_changed [OF ok, of state e] by (simp add: s Auto_state_changed)
    then show ?thesis ..
  next
    case (Interval_edited v)
    have "window_ok (w\<lparr>interval_spin := user_edit (interval_spin w) v\<rparr>)"
      using ok by (simp add: window_ok_def user_edit_def)
    then have "handle ev s = Inr (w\<lparr>interval_spin := user_edit (interval_spin w) v\<rparr>, e) \<and>
          window_ok (fst (w\<lparr>interval_spin := user_edit (interval_spin w) v\<rparr>, e))"
      by (simp add: s Interval_edited)
    then show ?thesis ..
  next
    case Ui_timeout
    obtain w' e' where "ui_tick w e = Inr (w', e')" and "window_ok w'"
      using ok by (rule window_ok_ui_tick)
    moreover have "active (ui_timer w)"
      using ok by (simp add: window_ok_def)
    ultimately have "handle ev s = Inr (w', e') \<and> window_ok (fst (w', e'))"
      by (simp add: s Ui_timeout)
    then show ?thesis ..
  next
    case Auto_timeout
    show ?thesis
    proof (cases "active (auto_timer w)")
      case True
      then show ?thesis
        using intr by (simp add: s Auto_timeout)
    next
      case False
      then have "handle ev s = Inr (w, e) \<and> window_ok (fst (w, e))"
        using ok by (simp add: s Auto_timeout)
      then show ?thesis ..
    qed
  qed
qed

lemma window_ok_run:
  "window_ok (fst s) \<Longrightarrow> \<exists>s'. run evs s = Inr s' \<and> window_ok (fst s')"
proof (induction evs arbitrary: s)
  case Nil
  then show ?case by simp
next
  case (Cons ev evs)
  obtain s1 where s1: "handle ev s = Inr s1" "window_ok (fst s1)"
    using window_ok_handle [OF Cons.prems, of ev] by (elim exE conjE)
  show ?case
    using Cons.IH [OF s1(2)] s1(1) by simp
qed

lemma TimelineCanvas_init_fields:
  "max_points (TimelineCanvas_init mp) = mp" "markers_binary (TimelineCanvas_init mp)"
  by (simp_all add: TimelineCanvas_init_def markers_binary_def)

lemma interval_spin_init_eq:
  "interval_spin_init = Inr \<lparr>minimum = 1, maximum = 60, spin_value = 5\<rparr>"
  by (simp add: interval_spin_init_def setRange_def setValue_def c_int_def QSpinBox_new_def)

lemma window_ok_init: "window_ok (fst (MainWindow_init e))"
  by (simp add: MainWindow_init_def QuantumHoneypotModel_init_def reset_def choice_def
      time_time_def append_graph_eq log_line_eq window_ok_def cell_ok_def
      canvas_ok_append_canvas canvas_ok_init markers_binary_append_canvas
      max_points_simps TimelineCanvas_init_fields interval_spin_init_eq
      start_def setInterval_def QTimer_new_def)

lemma run_window_ok:
  obtains w e' where "run_window evs e = Inr (w, e')" and "window_ok w"
proof -
  have "\<exists>s'. run evs (MainWindow_init e) = Inr s' \<and> window_ok (fst s')"
    using window_ok_init [of e] by (rule window_ok_run)
  then obtain s' where "run evs (MainWindow_init e) = Inr s'" and "window_ok (fst s')"
    by (elim exE conjE)
  then show ?thesis
    using that [of "fst s'" "snd s'"] by (simp add: run_window_def)
qed

lemma py_round2_of_nat: "py_round2 (real n) = real n"
proof -
  have "real n * 100 = of_int (int n * 100)"
    by simp
  then have "\<lfloor>real n * 100\<rfloor> = int n * 100"
    by (metis floor_of_int)
  then show ?thesis
    by (simp add: py_round2_def round_half_even_def)
qed

lemma MainWindow_init_env0:
  "MainWindow_init env0 =
     (\<lparr>model = \<lparr>quantum_state = Ket0, collapsed = False, collapsed_value = None, time = 0\<rparr>,
       start_time = 0, state_label = Label_pre Ket0,
       interval_spin = \<lparr>minimum = 1, maximum = 60, spin_value = 5\<rparr>,
       canvas = \<lparr>max_points = 400, times_q = \<lparr>items = [1], maxlen = 400\<rparr>,
                  values_q = \<lparr>items = [NaN], maxlen = 400\<rparr>, intrusion_times = []\<rparr>,
       log_box = [(''12:00:00'', Log_initialized Ket0)],
       ui_timer = \<lparr>interval = 500, active = True, starts = 1\<rparr>,
       auto_timer = \<lparr>interval = 0, active = False, starts = 0\<rparr>, alerts = 0\<rparr>,
      env0\<lparr>rand_pos := 1, clock_pos := 2, strftime_pos := 1\<rparr>)"
proof -
  have r: "py_round2 1 = 1"
    using py_round2_of_nat [of 1] by simp
  show ?thesis
    unfolding MainWindow_init_def QuantumHoneypotModel_init_def reset_env0
    by (simp add: time_time_def append_graph_eq log_line_eq env0_def TimelineCanvas_init_def
        append_canvas_def deque_new_def deque_append_def interval_spin_init_eq
        start_def setInterval_def QTimer_new_def r)
qed


lemma current_time_init_env0:
  "fst (current_time (fst (MainWindow_init env0)) (snd (MainWindow_init env0))) = 2"
  unfolding MainWindow_init_env0 fst_conv snd_conv
  using py_round2_of_nat [of 2]
  by (simp add: current_time_eq env0_def)

lemma on_intrusion_init_env0:
  "on_intrusion (fst (MainWindow_init env0)) (snd (MainWindow_init env0)) =
     Inr (\<lparr>model = \<lparr>quantum_state = Ket0, collapsed = True, collapsed_value = Some ''1'',
                      time = 0\<rparr>,
            start_time = 0, state_label = Label_collapsed_by_intrusion (Some ''1''),
            interval_spin = \<lparr>minimum = 1, maximum = 60, spin_value = 5\<rparr>,
            canvas = \<lparr>max_points = 400, times_q = \<lparr>items = [1, 3], maxlen = 400\<rparr>,
                       values_q = \<lparr>items = [NaN, Num 1], maxlen = 400\<rparr>,
                       intrusion_times = [(2, Num 1)]\<rparr>,
            log_box = [(''12:00:00'', Log_initialized Ket0),
                       (''12:00:00'', Log_intrusion_collapse (Some ''1''))],
            ui_timer = \<lparr>interval = 500, active = True, starts = 1\<rparr>,
            auto_timer = \<lparr>interval = 0, active = False, starts = 0\<rparr>, alerts = 1\<rparr>,
          env0\<lparr>rand_pos := 2, clock_pos := 4, strftime_pos := 2\<rparr>)"
proof -
  let ?w = "fst (MainWindow_init env0)" and ?e = "snd (MainWindow_init env0)"
  have a: "\<not> collapsed (model ?w)"
    by (simp add: MainWindow_init_env0)
  have b: "fst (choice MEASURE_OUTCOMES ?e) = ''1''"
    unfolding MainWindow_init_env0 snd_conv
    by (simp add: choice_def MEASURE_OUTCOMES_def env0_def)
  have r: "py_round2 2 = 2" "py_round2 3 = 3"
    using py_round2_of_nat [of 2] py_round2_of_nat [of 3] by simp_all
  show ?thesis
    unfolding on_intrusion_fresh [OF a b py_int_outcomes(2)]
    unfolding MainWindow_init_env0 fst_conv snd_conv
    by (simp add: env0_def mark_intrusion_def append_canvas_def deque_append_def r)
qed

text \<open>
  C4. On a window whose cell holds a proper value, every call of \<^verbatim>\<open>on_intrusion\<close> returns
  normally, appends exactly one marker, at the elapsed time read first in the call, and
  shows one alert. If the cell was already collapsed, the cell, the random source and
  both sample deques are unchanged and the marker holds the integer of the stored value.
  If it was not, the call draws once and also appends one sample, with the same value, at
  the elapsed time read next. Every window the event loop reaches has such a cell
  (\<open>run_window_ok\<close>).
\<close>

theorem on_intrusion_records:
  assumes "cell_ok (model w)"
  shows "\<exists>w' e' n.
           on_intrusion w e = Inr (w', e') \<and> (n = 0 \<or> n = 1) \<and>
           intrusion_times (canvas w') =
             intrusion_times (canvas w) @ [(fst (current_time w e), Num n)] \<and>
           alerts w' = Suc (alerts w) \<and>
           collapsed (model w') \<and> py_int (collapsed_value (model w')) = Inr n \<and>
           (if collapsed (model w)
            then model w' = model w \<and> rand_pos e' = rand_pos e \<and>
                 times_q (canvas w') = times_q (canvas w) \<and>
                 values_q (canvas w') = values_q (canvas w)
            else rand_pos e' = Suc (rand_pos e) \<and>
                 times_q (canvas w') =
                   deque_append (times_q (canvas w))
                     (fst (current_time w (snd (current_time w e)))) \<and>
                 values_q (canvas w') = deque_append (values_q (canvas w)) (Num n))"
proof (cases "collapsed (model w)")
  case True
  obtain n where n: "n = 0 \<or> n = 1" "py_int (collapsed_value (model w)) = Inr n"
    using assms True by (rule cell_ok_collapsed_int)
  show ?thesis
    unfolding on_intrusion_collapsed [OF True n(2)]
    apply (intro exI conjI)
          apply (rule refl)
         apply (rule n(1))
    using True n(2)
        apply (simp_all add: mark_intrusion_def current_time_eq)
    done
next
  case False
  obtain n where n: "n = 0 \<or> n = 1"
      "py_int (Some (fst (choice MEASURE_OUTCOMES e))) = Inr n"
    by (rule choice_outcome_int)
  show ?thesis
    unfolding on_intrusion_fresh [OF False refl n(2)]
    apply (intro exI conjI)
          apply (rule refl)
         apply (rule n(1))
    using False n(2)
        apply (simp_all add: mark_intrusion_def append_canvas_def current_time_eq)
    done
qed

theorem on_intrusion_records_witness:
  "cell_ok (model (fst (MainWindow_init env0))) \<and>
   (\<exists>w' e'. on_intrusion (fst (MainWindow_init env0)) (snd (MainWindow_init env0)) = Inr (w', e') \<and>
      intrusion_times (canvas w') = [(2, Num 1)] \<and> alerts w' = 1 \<and>
      samples (canvas w') = [(1, NaN), (3, Num 1)])"
proof -
  let ?w = "fst (MainWindow_init env0)" and ?e = "snd (MainWindow_init env0)"
  have h: "cell_ok (model ?w)"
    by (simp add: MainWindow_init_env0 cell_ok_def)
  obtain w' e' n where r: "on_intrusion ?w ?e = Inr (w', e')"
      "intrusion_times (canvas w') = intrusion_times (canvas ?w) @ [(fst (current_time ?w ?e), Num n)]"
      "alerts w' = Suc (alerts ?w)" "py_int (collapsed_value (model w')) = Inr n"
    using on_intrusion_records [OF h, of ?e] by blast
  from r(1) have w': "w' = fst (projr (on_intrusion ?w ?e))"
    by simp
  have n: "n = 1"
    using r(4) unfolding w' on_intrusion_init_env0 by (simp add: py_int_outcomes)
  have "intrusion_times (canvas w') = [(2, Num 1)]"
    using r(2) by (simp add: n current_time_init_env0) (simp add: MainWindow_init_env0)
  moreover have "alerts w' = 1"
    using r(3) by (simp add: MainWindow_init_env0)
  moreover have "samples (canvas w') = [(1, NaN), (3, Num 1)]"
    unfolding w' on_intrusion_init_env0 by (simp add: samples_def)
  ultimately show ?thesis
    using h r(1) by blast
qed

lemma samples_after_clear:
  "0 < max_points c \<Longrightarrow> samples (append_canvas (clear c) t v) = [(t, v)]"
  by (simp add: samples_def append_canvas_def clear_def deque_new_def deque_append_def)

text \<open>
  C7. After every call of \<^verbatim>\<open>on_reset\<close> the cell is not collapsed and holds no value, its
  label is the one the next draw selects, the markers are cleared, and, on a canvas with
  room for a sample (every canvas the event loop reaches: \<^verbatim>\<open>max_points=400\<close>), the samples are
  exactly one: the unknown value at the elapsed time read in the call.
\<close>

theorem on_reset_post:
  "\<not> collapsed (model (fst (on_reset w e))) \<and>
   collapsed_value (model (fst (on_reset w e))) = None \<and>
   quantum_state (model (fst (on_reset w e))) = QSTATES ! (rand_src e (rand_pos e) mod 4) \<and>
   rand_pos (snd (on_reset w e)) = Suc (rand_pos e) \<and>
   intrusion_times (canvas (fst (on_reset w e))) = [] \<and>
   (0 < max_points (canvas w) \<longrightarrow>
      samples (canvas (fst (on_reset w e))) = [(fst (current_time w e), NaN)]) \<and>
   (run_window evs e0 = Inr (w, e) \<longrightarrow>
      samples (canvas (fst (on_reset w e))) = [(fst (current_time w e), NaN)])"
proof -
  have s: "samples (canvas (fst (on_reset w e))) = [(fst (current_time w e), NaN)]"
    if "0 < max_points (canvas w)"
    using that by (simp add: on_reset_eq current_time_eq samples_after_clear)
  have r: "0 < max_points (canvas w)" if "run_window evs e0 = Inr (w, e)"
  proof -
    obtain w1 e1 where "run_window evs e0 = Inr (w1, e1)" and "window_ok w1"
      by (rule run_window_ok)
    with that show ?thesis
      by (simp add: window_ok_def)
  qed
  have "intrusion_times (canvas (fst (on_reset w e))) = []"
    by (simp add: on_reset_eq append_canvas_def clear_def)
  then show ?thesis
    using s r by (simp add: on_reset_eq)
qed

theorem on_reset_post_witness:
  "run_window [] env0 = Inr (MainWindow_init env0) \<and>
   \<not> collapsed (model (fst (on_reset (fst (MainWindow_init env0)) (snd (MainWindow_init env0))))) \<and>
   quantum_state (model (fst (on_reset (fst (MainWindow_init env0)) (snd (MainWindow_init env0)))))
     = Ket1 \<and>
   samples (canvas (fst (on_reset (fst (MainWindow_init env0)) (snd (MainWindow_init env0)))))
     = [(2, NaN)]"
proof -
  let ?w = "fst (MainWindow_init env0)" and ?e = "snd (MainWindow_init env0)"
  have h: "run_window [] env0 = Inr (?w, ?e)"
    by (simp add: run_window_def)
  have q: "QSTATES ! (rand_src ?e (rand_pos ?e) mod 4) = Ket1"
    unfolding MainWindow_init_env0 snd_conv by (simp add: env0_def QSTATES_def)
  show ?thesis
    using on_reset_post [of ?w ?e "[]" env0] h
    by (simp add: current_time_init_env0 q)
qed

lemma run_two_intrusions_env0:
  "run_window [Intrude_clicked, Intrude_clicked] env0 =
     Inr (\<lparr>model = \<lparr>quantum_state = Ket0, collapsed = True, collapsed_value = Some ''1'',
                      time = 0\<rparr>,
            start_time = 0, state_label = Label_collapsed_by_intrusion (Some ''1''),
            interval_spin = \<lparr>minimum = 1, maximum = 60, spin_value = 5\<rparr>,
            canvas = \<lparr>max_points = 400, times_q = \<lparr>items = [1, 3], maxlen = 400\<rparr>,
                       values_q = \<lparr>items = [NaN, Num 1], maxlen = 400\<rparr>,
                       intrusion_times = [(2, Num 1), (4, Num 1)]\<rparr>,
            log_box = [(''12:00:00'', Log_initialized Ket0),
                       (''12:00:00'', Log_intrusion_collapse (Some ''1'')),
                       (''12:00:00'', Log_intrusion_post (Some ''1''))],
            ui_timer = \<lparr>interval = 500, active = True, starts = 1\<rparr>,
            auto_timer = \<lparr>interval = 0, active = False, starts = 0\<rparr>, alerts = 2\<rparr>,
          env0\<lparr>rand_pos := 2, clock_pos := 5, strftime_pos := 3\<rparr>)"
proof -
  have r: "py_round2 4 = 4"
    using py_round2_of_nat [of 4] by simp
  have "run_window [Intrude_clicked, Intrude_clicked] env0 =
        (case on_intrusion (fst (MainWindow_init env0)) (snd (MainWindow_init env0)) of
           Inl err \<Rightarrow> Inl err
         | Inr s' \<Rightarrow> on_intrusion (fst s') (snd s'))"
    by (cases "MainWindow_init env0") (simp add: run_window_def split: sum.splits)
  also have "\<dots> = on_intrusion
       \<lparr>model = \<lparr>quantum_state = Ket0, collapsed = True, collapsed_value = Some ''1'',
                      time = 0\<rparr>,
            start_time = 0, state_label = Label_collapsed_by_intrusion (Some ''1''),
            interval_spin = \<lparr>minimum = 1, maximum = 60, spin_value = 5\<rparr>,
            canvas = \<lparr>max_points = 400, times_q = \<lparr>items = [1, 3], maxlen = 400\<rparr>,
                       values_q = \<lparr>items = [NaN, Num 1], maxlen = 400\<rparr>,
                       intrusion_times = [(2, Num 1)]\<rparr>,
            log_box = [(''12:00:00'', Log_initialized Ket0),
                       (''12:00:00'', Log_intrusion_collapse (Some ''1''))],
            ui_timer = \<lparr>interval = 500, active = True, starts = 1\<rparr>,
            auto_timer = \<lparr>interval = 0, active = False, starts = 0\<rparr>, alerts = 1\<rparr>
       (env0\<lparr>rand_pos := 2, clock_pos := 4, strftime_pos := 2\<rparr>)"
    unfolding on_intrusion_init_env0 by simp
  also have "\<dots> = Inr (\<lparr>model = \<lparr>quantum_state = Ket0, collapsed = True, collapsed_value = Some ''1'',
                      time = 0\<rparr>,
            start_time = 0, state_label = Label_collapsed_by_intrusion (Some ''1''),
            interval_spin = \<lparr>minimum = 1, maximum = 60, spin_value = 5\<rparr>,
            canvas = \<lparr>max_points = 400, times_q = \<lparr>items = [1, 3], maxlen = 400\<rparr>,
                       values_q = \<lparr>items = [NaN, Num 1], maxlen = 400\<rparr>,
                       intrusion_times = [(2, Num 1), (4, Num 1)]\<rparr>,
            log_box = [(''12:00:00'', Log_initialized Ket0),
                       (''12:00:00'', Log_intrusion_collapse (Some ''1'')),
                       (''12:00:00'', Log_intrusion_post (Some ''1''))],
            ui_timer = \<lparr>interval = 500, active = True, starts = 1\<rparr>,
            auto_timer = \<lparr>interval = 0, active = False, starts = 0\<rparr>, alerts = 2\<rparr>,
          env0\<lparr>rand_pos := 2, clock_pos := 5, strftime_pos := 3\<rparr>)"
    by (subst on_intrusion_collapsed [where n = 1])
       (simp_all add: py_int_outcomes mark_intrusion_def env0_def r)
  finally show ?thesis .
qed

text \<open>
  C10. Whatever events the window receives after \<^verbatim>\<open>MainWindow()\<close>, no handler fails and
  every marker recorded holds 0 or 1, never the unknown value: both branches of
  \<^verbatim>\<open>on_intrusion\<close> pass \<^verbatim>\<open>int(outcome)\<close> to \<^verbatim>\<open>mark_intrusion\<close>.
\<close>

theorem markers_never_unknown:
  "\<exists>w e'. run_window evs e = Inr (w, e') \<and> markers_binary (canvas w) \<and>
          NaN \<notin> snd ` set (intrusion_times (canvas w))"
proof -
  obtain w e' where r: "run_window evs e = Inr (w, e')" and ok: "window_ok w"
    by (rule run_window_ok)
  from ok have m: "markers_binary (canvas w)"
    by (simp add: window_ok_def)
  then have "NaN \<notin> snd ` set (intrusion_times (canvas w))"
    by (auto simp: markers_binary_def list_all_iff)
  with r m show ?thesis
    by blast
qed

theorem markers_never_unknown_witness:
  "\<exists>w e'. run_window [Intrude_clicked, Intrude_clicked] env0 = Inr (w, e') \<and>
          intrusion_times (canvas w) = [(2, Num 1), (4, Num 1)] \<and>
          NaN \<notin> snd ` set (intrusion_times (canvas w))"
proof -
  obtain w e' where r: "run_window [Intrude_clicked, Intrude_clicked] env0 = Inr (w, e')"
    and n: "NaN \<notin> snd ` set (intrusion_times (canvas w))"
    using markers_never_unknown [of "[Intrude_clicked, Intrude_clicked]" env0] by blast
  from r have "intrusion_times (canvas w) = [(2, Num 1), (4, Num 1)]"
    unfolding run_two_intrusions_env0 by auto
  with r n show ?thesis
    by blast
qed

section \<open>Auto-intrusion: the interval and the timers\<close>










end
